theory Spec2Isabelle
  imports Complex_Main "HOL-Library.Sublist" "HOL-Library.Multiset" "HOL-Library.Product_Order"
begin

section \<open>Python values and exceptions\<close>

text \<open>
  Both programs compute with Python floats. They are modelled as the real numbers,
  except for the accumulation loop of \<^verbatim>\<open>DS_NLTrans_F.py\<close>, which is also given in
  double-precision addition (\<open>float_add\<close> below); overflow, NaN and signed zero are
  outside this development. An exception
  that leaves a function is a value \<open>Inl e\<close> of the result type; the programs contain no
  \<^verbatim>\<open>try\<close>, so every exception raised below propagates to the caller unhandled.

  \<^item> \<open>ValueError\<close> is the \<^verbatim>\<open>math domain error\<close> of \<^verbatim>\<open>math.sqrt\<close> at a negative argument;
  \<^item> \<open>ZeroDivisionError\<close> is float division by zero;
  \<^item> \<open>KeyError c\<close> is pandas' error for a column \<open>c\<close> the frame does not have.
\<close>

datatype py_error = ValueError | ZeroDivisionError | KeyError string

definition py_bind :: "py_error + 'a \<Rightarrow> ('a \<Rightarrow> py_error + 'b) \<Rightarrow> py_error + 'b" where
  "py_bind m f = (case m of Inl e \<Rightarrow> Inl e | Inr v \<Rightarrow> f v)"

definition math_radians :: "real \<Rightarrow> real" where
  "math_radians x = x * pi / 180"

definition math_sqrt :: "real \<Rightarrow> py_error + real" where
  "math_sqrt x = (if x < 0 then Inl ValueError else Inr (sqrt x))"

definition truediv :: "real \<Rightarrow> real \<Rightarrow> py_error + real" where
  "truediv a b = (if b = 0 then Inl ZeroDivisionError else Inr (a / b))"

text \<open>Python's \<^verbatim>\<open>sub in s\<close> on strings is \<^term>\<open>sublist sub s\<close> (a contiguous run).\<close>




section \<open>What the two variants share\<close>

text \<open>\<^verbatim>\<open>calculate_head_depth\<close> is the same function in both files.\<close>

definition calculate_head_depth :: "string \<Rightarrow> real \<Rightarrow> real \<Rightarrow> py_error + real" where
  "calculate_head_depth head_type R aspect_ratio =
     (if sublist ''Hemispherical'' head_type then Inr R
      else if sublist ''Ellipsoidal'' head_type then truediv R aspect_ratio
      else Inr 0.0)"

text \<open>
  The attachment dictionaries that \<^verbatim>\<open>main\<close> builds. Every key read with \<^verbatim>\<open>d[k]\<close> is a
  field; \<^verbatim>\<open>aspect_ratio\<close> is read with \<^verbatim>\<open>.get('aspect_ratio', 2.0)\<close> and so is optional.
  The entries of \<^verbatim>\<open>NLTrans_V.0sm.py\<close> carry the two extra keys of \<open>tag\<close>.
\<close>

record component =
  location :: string
  offset :: real
  elevation :: real
  theta :: real
  aspect_ratio :: "real option"

record nozzle = component +
  P :: real
  V1 :: real
  V2 :: real
  Vc :: real
  VL :: real

record support = component +
  Fv :: real
  Fh1 :: real
  Fh2 :: real

record tag =
  tag_no :: string
  type :: string

text \<open>
  The \<^verbatim>\<open>Location\<close> select box of \<^verbatim>\<open>main\<close> offers five values, the same in both files:
  \<^verbatim>\<open>Shell\<close>, \<^verbatim>\<open>Hemispherical Top Head\<close>, \<^verbatim>\<open>Hemispherical Bottom Head\<close>,
  \<^verbatim>\<open>Ellipsoidal Top Head\<close> and \<^verbatim>\<open>Ellipsoidal Bottom Head\<close>.
\<close>

text \<open>
  The bound that \<^verbatim>\<open>main\<close> puts on the \<^verbatim>\<open>Offset\<close> input of a head attachment, in both
  files: \<^verbatim>\<open>max_offset = calculate_head_depth(head_type, R)\<close>, with the default
  aspect ratio 2.0.
\<close>

definition max_offset :: "string \<Rightarrow> real \<Rightarrow> py_error + real" where
  "max_offset = (\<lambda>location R.
      let head_type = (if sublist ''Hemispherical'' location then ''Hemispherical''
                       else ''Ellipsoidal'')
      in calculate_head_depth head_type R 2.0)"

section \<open>\<^verbatim>\<open>DS_NLTrans_F.py\<close>\<close>

definition DS_calculate_position ::
  "'a component_scheme \<Rightarrow> real \<Rightarrow> real \<Rightarrow> real \<Rightarrow> py_error + (real \<times> real \<times> real)" where
  "DS_calculate_position nozzle support_height R L =
     (let location = location nozzle;
          \<theta> = math_radians (theta nozzle);
          offset = offset nozzle;
          X = offset * sin \<theta>;
          Z = - offset * cos \<theta>
      in if location = ''Shell'' then Inr (X, support_height + elevation nozzle, Z)
         else
           let head_type = (if sublist ''Hemispherical'' location then ''Hemispherical''
                            else ''Ellipsoidal'');
               aspect_ratio = (case aspect_ratio nozzle of Some a \<Rightarrow> a | None \<Rightarrow> 2.0)
           in py_bind (calculate_head_depth head_type R aspect_ratio) (\<lambda>head_depth.
              if sublist ''Top'' location then
                let base_elevation = support_height + L + head_depth in
                if sublist ''Hemispherical'' location then
                  py_bind (math_sqrt (head_depth\<^sup>2 - offset\<^sup>2)) (\<lambda>s.
                    Inr (X, base_elevation + head_depth - s, Z))
                else
                  py_bind (truediv (offset\<^sup>2) (R\<^sup>2)) (\<lambda>q.
                  py_bind (math_sqrt (1 - q)) (\<lambda>s.
                    Inr (X, base_elevation + head_depth * (1 - s), Z)))
              else
                let base_elevation = support_height - head_depth in
                if sublist ''Hemispherical'' location then
                  py_bind (math_sqrt (head_depth\<^sup>2 - offset\<^sup>2)) (\<lambda>s.
                    Inr (X, base_elevation - head_depth + s, Z))
                else
                  py_bind (truediv (offset\<^sup>2) (R\<^sup>2)) (\<lambda>q.
                  py_bind (math_sqrt (1 - q)) (\<lambda>s.
                    Inr (X, base_elevation - head_depth * (1 - s), Z)))))"

definition DS_transform_loads ::
  "'a nozzle_scheme \<Rightarrow> real \<Rightarrow> real \<Rightarrow> real
     \<Rightarrow> py_error + (real \<times> real \<times> real \<times> real \<times> real \<times> real)" where
  "DS_transform_loads nozzle support_height R L =
     py_bind (DS_calculate_position nozzle support_height R L) (\<lambda>(X, Y, Z).
       let \<theta> = math_radians (theta nozzle);
           (Fx, Fy, Fz) =
             (if sublist ''Head'' (location nozzle) then
                (V1 nozzle * sin \<theta> + V2 nozzle * cos \<theta>,
                 P nozzle,
                 - V1 nozzle * cos \<theta> + V2 nozzle * sin \<theta>)
              else
                (P nozzle * sin \<theta> + Vc nozzle * cos \<theta>,
                 VL nozzle,
                 - P nozzle * cos \<theta> + Vc nozzle * sin \<theta>));
           Mx = Y * Fz - Z * Fy;
           My = Z * Fx - X * Fz;
           Mz = X * Fy - Y * Fx
       in Inr (Fx, Fy, Fz, Mx, My, Mz))"

text \<open>
  The loop of \<^verbatim>\<open>main\<close> under the \<^verbatim>\<open>Calculate\<close> button: six running totals, each
  starting at 0.0; an exception of \<^verbatim>\<open>transform_loads\<close> ends the run.
\<close>

fun DS_accumulate ::
  "'a nozzle_scheme list \<Rightarrow> real \<Rightarrow> real \<Rightarrow> real
     \<Rightarrow> real \<times> real \<times> real \<times> real \<times> real \<times> real
     \<Rightarrow> py_error + (real \<times> real \<times> real \<times> real \<times> real \<times> real)" where
  "DS_accumulate [] support_height R L totals = Inr totals"
| "DS_accumulate (nozzle # nozzles) support_height R L
     (total_Fx, total_Fy, total_Fz, total_Mx, total_My, total_Mz) =
     (case DS_transform_loads nozzle support_height R L of
        Inl e \<Rightarrow> Inl e
      | Inr (Fx, Fy, Fz, Mx, My, Mz) \<Rightarrow>
          DS_accumulate nozzles support_height R L
            (total_Fx + Fx, total_Fy + Fy, total_Fz + Fz,
             total_Mx + Mx, total_My + My, total_Mz + Mz))"

definition DS_main ::
  "'a nozzle_scheme list \<Rightarrow> real \<Rightarrow> real \<Rightarrow> real
     \<Rightarrow> py_error + (real \<times> real \<times> real \<times> real \<times> real \<times> real)" where
  "DS_main nozzles support_height R L =
     DS_accumulate nozzles support_height R L (0.0, 0.0, 0.0, 0.0, 0.0, 0.0)"


section \<open>\<^verbatim>\<open>NLTrans_V.0sm.py\<close>\<close>

definition calculate_position ::
  "'a component_scheme \<Rightarrow> real \<Rightarrow> real \<Rightarrow> real \<Rightarrow> py_error + (real \<times> real \<times> real)" where
  "calculate_position component support_height R L =
     (let location = location component;
          \<theta> = math_radians (theta component);
          offset = offset component;
          X = offset * sin \<theta>;
          Z = - offset * cos \<theta>
      in if location = ''Shell'' then Inr (X, support_height + elevation component, Z)
         else
           let head_type = (if sublist ''Hemispherical'' location then ''Hemispherical''
                            else ''Ellipsoidal'');
               aspect_ratio = (case aspect_ratio component of Some a \<Rightarrow> a | None \<Rightarrow> 2.0)
           in py_bind (calculate_head_depth head_type R aspect_ratio) (\<lambda>head_depth.
              if sublist ''Top'' location then
                let base_elevation = support_height + L in
                if offset = 0 then Inr (X, base_elevation + head_depth, Z)
                else if sublist ''Hemispherical'' location then
                  py_bind (math_sqrt (head_depth\<^sup>2 - offset\<^sup>2)) (\<lambda>s.
                    Inr (X, base_elevation + s, Z))
                else
                  py_bind (truediv (offset\<^sup>2) (R\<^sup>2)) (\<lambda>q.
                  py_bind (math_sqrt (1 - q)) (\<lambda>s.
                    Inr (X, base_elevation + head_depth * s, Z)))
              else
                let base_elevation = support_height in
                if offset = 0 then Inr (X, base_elevation - head_depth, Z)
                else if sublist ''Hemispherical'' location then
                  py_bind (math_sqrt (head_depth\<^sup>2 - offset\<^sup>2)) (\<lambda>s.
                    Inr (X, base_elevation - s, Z))
                else
                  py_bind (truediv (offset\<^sup>2) (R\<^sup>2)) (\<lambda>q.
                  py_bind (math_sqrt (1 - q)) (\<lambda>s.
                    Inr (X, base_elevation - head_depth * s, Z)))))"

text \<open>The dictionary that the two transformations return.\<close>

record global_load =
  Fx :: real
  Fy :: real
  Fz :: real
  Mx :: real
  My :: real
  Mz :: real

definition transform_nozzle_loads ::
  "'a nozzle_scheme \<Rightarrow> real \<Rightarrow> real \<Rightarrow> real \<Rightarrow> py_error + global_load" where
  "transform_nozzle_loads nozzle support_height R L =
     py_bind (calculate_position nozzle support_height R L) (\<lambda>(X, Y, Z).
       let \<theta> = math_radians (theta nozzle);
           (Fx, Fy, Fz) =
             (if sublist ''Head'' (location nozzle) then
                if sublist ''Top'' (location nozzle) then
                  (V1 nozzle * sin \<theta> + V2 nozzle * cos \<theta>,
                   P nozzle,
                   - V1 nozzle * cos \<theta> + V2 nozzle * sin \<theta>)
                else
                  (- V1 nozzle * sin \<theta> + V2 nozzle * cos \<theta>,
                   - P nozzle,
                   V1 nozzle * cos \<theta> + V2 nozzle * sin \<theta>)
              else
                (P nozzle * sin \<theta> + Vc nozzle * cos \<theta>,
                 VL nozzle,
                 - P nozzle * cos \<theta> + Vc nozzle * sin \<theta>));
           Mx = Y * Fz - Z * Fy;
           My = Z * Fx - X * Fz;
           Mz = X * Fy - Y * Fx
       in Inr \<lparr>Fx = Fx, Fy = Fy, Fz = Fz, Mx = Mx, My = My, Mz = Mz\<rparr>)"

definition transform_support_loads ::
  "'a support_scheme \<Rightarrow> real \<Rightarrow> real \<Rightarrow> real \<Rightarrow> py_error + global_load" where
  "transform_support_loads support support_height R L =
     py_bind (calculate_position support support_height R L) (\<lambda>(X, Y, Z).
       let \<theta> = math_radians (theta support);
           Fx = Fh1 support * sin \<theta> + Fh2 support * cos \<theta>;
           Fy = Fv support;
           Fz = - Fh1 support * cos \<theta> + Fh2 support * sin \<theta>;
           Mx = Y * Fz - Z * Fy;
           My = Z * Fx - X * Fz;
           Mz = X * Fy - Y * Fx
       in Inr \<lparr>Fx = Fx, Fy = Fy, Fz = Fz, Mx = Mx, My = My, Mz = Mz\<rparr>)"

text \<open>
  A row of the results table: the six loads under the keys \<^verbatim>\<open>'Tag No.'\<close> and
  \<^verbatim>\<open>'Type'\<close>.
\<close>

record result_row = global_load +
  Tag_No :: string
  Type :: string

text \<open>
  \<^verbatim>\<open>pd.DataFrame(rows)\<close> of a list of dictionaries has the keys of the dictionaries as
  its columns, so the frame of the empty list has no column at all and \<^verbatim>\<open>df[c]\<close>
  raises \<^verbatim>\<open>KeyError\<close> on it. Every row built by \<^verbatim>\<open>main\<close> has all eight keys, so a frame
  of one row or more has every column. \<^verbatim>\<open>.sum()\<close> adds the column up.
\<close>

definition df_getitem ::
  "result_row list \<Rightarrow> string \<Rightarrow> (result_row \<Rightarrow> real) \<Rightarrow> py_error + real list" where
  "df_getitem df c field = (if df = [] then Inl (KeyError c) else Inr (map field df))"

definition series_sum :: "real list \<Rightarrow> real" where
  "series_sum col = sum_list col"

text \<open>
  \<^verbatim>\<open>display_results\<close> up to the \<^verbatim>\<open>totals\<close> dictionary (lines 118 to 135); the rest of
  the function formats and renders the table. The entries of \<^verbatim>\<open>totals\<close> are evaluated
  in the order written. \<^verbatim>\<open>support_results\<close> defaults to \<^verbatim>\<open>None\<close>, and
  \<^verbatim>\<open>if support_results:\<close> is false for \<^verbatim>\<open>None\<close> and for the empty list.
\<close>

definition display_results ::
  "result_row list \<Rightarrow> result_row list option \<Rightarrow> py_error + result_row" where
  "display_results nozzle_results support_results =
     (let all_results =
            (case support_results of
               None \<Rightarrow> nozzle_results
             | Some rs \<Rightarrow> if rs \<noteq> [] then nozzle_results @ rs else nozzle_results);
          df = all_results
      in py_bind (df_getitem df ''Fx'' Fx) (\<lambda>cFx.
         py_bind (df_getitem df ''Fy'' Fy) (\<lambda>cFy.
         py_bind (df_getitem df ''Fz'' Fz) (\<lambda>cFz.
         py_bind (df_getitem df ''Mx'' Mx) (\<lambda>cMx.
         py_bind (df_getitem df ''My'' My) (\<lambda>cMy.
         py_bind (df_getitem df ''Mz'' Mz) (\<lambda>cMz.
           Inr \<lparr>Fx = series_sum cFx, Fy = series_sum cFy, Fz = series_sum cFz,
                Mx = series_sum cMx, My = series_sum cMy, Mz = series_sum cMz,
                Tag_No = ''TOTAL'', Type = ''''\<rparr>)))))))"

text \<open>
  The two loops of \<^verbatim>\<open>main\<close> under the \<^verbatim>\<open>Calculate\<close> button (lines 325 to 358): one row
  per nozzle, then one row per pipe support, in input order; an exception of a
  transformation ends the run.
\<close>

definition make_row :: "tag \<Rightarrow> global_load \<Rightarrow> result_row" where
  "make_row t result =
     \<lparr>Fx = Fx result, Fy = Fy result, Fz = Fz result,
      Mx = Mx result, My = My result, Mz = Mz result,
      Tag_No = tag_no t, Type = type t\<rparr>"

fun process_nozzles ::
  "tag nozzle_scheme list \<Rightarrow> real \<Rightarrow> real \<Rightarrow> real \<Rightarrow> py_error + result_row list" where
  "process_nozzles [] support_height R L = Inr []"
| "process_nozzles (nozzle # nozzles) support_height R L =
     (case transform_nozzle_loads nozzle support_height R L of
        Inl e \<Rightarrow> Inl e
      | Inr result \<Rightarrow>
          (case process_nozzles nozzles support_height R L of
             Inl e \<Rightarrow> Inl e
           | Inr nozzle_results \<Rightarrow>
               Inr (make_row (nozzle.more nozzle) result # nozzle_results)))"

fun process_supports ::
  "tag support_scheme list \<Rightarrow> real \<Rightarrow> real \<Rightarrow> real \<Rightarrow> py_error + result_row list" where
  "process_supports [] support_height R L = Inr []"
| "process_supports (support # supports) support_height R L =
     (case transform_support_loads support support_height R L of
        Inl e \<Rightarrow> Inl e
      | Inr result \<Rightarrow>
          (case process_supports supports support_height R L of
             Inl e \<Rightarrow> Inl e
           | Inr support_results \<Rightarrow>
               Inr (make_row (support.more support) result # support_results)))"

definition main_calculate ::
  "tag nozzle_scheme list \<Rightarrow> tag support_scheme list \<Rightarrow> real \<Rightarrow> real \<Rightarrow> real
     \<Rightarrow> py_error + result_row" where
  "main_calculate nozzles supports support_height R L =
     py_bind (process_nozzles nozzles support_height R L) (\<lambda>nozzle_results.
     py_bind (process_supports supports support_height R L) (\<lambda>support_results.
       display_results nozzle_results (Some support_results)))"

section \<open>Facts about the location strings and the angle\<close>

lemma head_type_sublist:
  "sublist ''Hemispherical'' ''Hemispherical''"
  "\<not> sublist ''Hemispherical'' ''Ellipsoidal''"
  "sublist ''Ellipsoidal'' ''Ellipsoidal''"
  by (simp_all add: sublist_Cons_right)

lemma shell_sublist:
  "\<not> sublist ''Head'' ''Shell''"
  by (simp_all add: sublist_Cons_right)

lemma hemi_top_sublist:
  "sublist ''Hemispherical'' ''Hemispherical Top Head''"
  "sublist ''Top'' ''Hemispherical Top Head''"
  "sublist ''Head'' ''Hemispherical Top Head''"
  by (simp_all add: sublist_Cons_right)

lemma hemi_bottom_sublist:
  "sublist ''Hemispherical'' ''Hemispherical Bottom Head''"
  "\<not> sublist ''Top'' ''Hemispherical Bottom Head''"
  "sublist ''Head'' ''Hemispherical Bottom Head''"
  by (simp_all add: sublist_Cons_right)

lemma ellip_top_sublist:
  "\<not> sublist ''Hemispherical'' ''Ellipsoidal Top Head''"
  "sublist ''Top'' ''Ellipsoidal Top Head''"
  "sublist ''Head'' ''Ellipsoidal Top Head''"
  by (simp_all add: sublist_Cons_right)

lemma ellip_bottom_sublist:
  "\<not> sublist ''Hemispherical'' ''Ellipsoidal Bottom Head''"
  "\<not> sublist ''Top'' ''Ellipsoidal Bottom Head''"
  "sublist ''Head'' ''Ellipsoidal Bottom Head''"
  by (simp_all add: sublist_Cons_right)

lemmas location_sublist = head_type_sublist shell_sublist hemi_top_sublist hemi_bottom_sublist
  ellip_top_sublist ellip_bottom_sublist

lemmas py_defs = py_bind_def math_sqrt_def truediv_def calculate_head_depth_def




section \<open>Load transformation on a bottom head\<close>

text \<open>
  Claim C1, as amended. For a nozzle on a bottom head (hemispherical or ellipsoidal),
  whenever the position resolves, \<^verbatim>\<open>transform_nozzle_loads\<close> of \<^verbatim>\<open>NLTrans_V.0sm.py\<close>
  returns the sign-flipped forces \<open>Fx = -V1 sin \<theta> + V2 cos \<theta>\<close>, \<open>Fy = -P\<close>,
  \<open>Fz = V1 cos \<theta> + V2 sin \<theta>\<close>, while \<^verbatim>\<open>transform_loads\<close> of \<^verbatim>\<open>DS_NLTrans_F.py\<close>
  returns the top-head mapping unchanged: \<open>Fx = V1 sin \<theta> + V2 cos \<theta>\<close>, \<open>Fy = P\<close>,
  \<open>Fz = -V1 cos \<theta> + V2 sin \<theta>\<close>.
\<close>

theorem bottom_head_forces:
  assumes "location n \<in> {''Hemispherical Bottom Head'', ''Ellipsoidal Bottom Head''}"
  shows "(\<forall>p. calculate_position n sh R L = Inr p \<longrightarrow>
           (\<exists>g. transform_nozzle_loads n sh R L = Inr g
              \<and> Fx g = - V1 n * sin (math_radians (theta n)) + V2 n * cos (math_radians (theta n))
              \<and> Fy g = - P n
              \<and> Fz g = V1 n * cos (math_radians (theta n)) + V2 n * sin (math_radians (theta n))))
       \<and> (\<forall>p. DS_calculate_position n sh R L = Inr p \<longrightarrow>
           (\<exists>mx my mz. DS_transform_loads n sh R L =
              Inr (V1 n * sin (math_radians (theta n)) + V2 n * cos (math_radians (theta n)),
                   P n,
                   - V1 n * cos (math_radians (theta n)) + V2 n * sin (math_radians (theta n)),
                   mx, my, mz)))"
  using assms
  by (auto simp: transform_nozzle_loads_def DS_transform_loads_def py_bind_def Let_def
      location_sublist)

theorem bottom_head_forces_witness:
  "(let n = \<lparr>location = ''Hemispherical Bottom Head'', offset = 0, elevation = 0, theta = 90,
              aspect_ratio = Some 2, P = 50, V1 = 10, V2 = 0, Vc = 0, VL = 0\<rparr>
    in location n \<in> {''Hemispherical Bottom Head'', ''Ellipsoidal Bottom Head''}
     \<and> calculate_position n 0 1 10 = Inr (0, - 1, 0)
     \<and> (\<exists>g. transform_nozzle_loads n 0 1 10 = Inr g
            \<and> Fx g = - 10 \<and> Fy g = - 50 \<and> Fz g = 0)
     \<and> DS_calculate_position n 0 1 10 = Inr (0, - 1, 0)
     \<and> (\<exists>mx my mz. DS_transform_loads n 0 1 10 = Inr (10, 50, 0, mx, my, mz)))"
proof -
  let ?n = "\<lparr>location = ''Hemispherical Bottom Head'', offset = 0, elevation = 0, theta = 90,
              aspect_ratio = Some 2, P = 50, V1 = 10, V2 = 0, Vc = 0, VL = 0\<rparr>"
  have loc: "location ?n \<in> {''Hemispherical Bottom Head'', ''Ellipsoidal Bottom Head''}"
    by simp
  have pos: "calculate_position ?n 0 1 10 = Inr (0, - 1, 0)"
    by (simp add: calculate_position_def Let_def py_defs location_sublist)
  have dpos: "DS_calculate_position ?n 0 1 10 = Inr (0, - 1, 0)"
    by (simp add: DS_calculate_position_def Let_def py_defs location_sublist)
  show ?thesis
    using bottom_head_forces [OF loc, of 0 1 10] pos dpos
    by (simp add: math_radians_def)
qed

text \<open>
  The claim as written fails on \<^verbatim>\<open>DS_NLTrans_F.py\<close>: for a bottom-head nozzle with
  \<open>P = 50\<close> it returns \<open>Fy = 50\<close>, not \<open>-50\<close>.
\<close>

theorem bottom_head_forces_DS_counterexample:
  "DS_transform_loads
     \<lparr>location = ''Hemispherical Bottom Head'', offset = 0, elevation = 0, theta = 0,
      aspect_ratio = Some 2, P = 50, V1 = 0, V2 = 0, Vc = 0, VL = 0\<rparr> 0 1 10
     = Inr (0, 50, 0, 0, 0, 0)
   \<and> (50::real) \<noteq> - 50"
  by (simp add: DS_transform_loads_def DS_calculate_position_def Let_def py_defs
      math_radians_def location_sublist)

section \<open>Vertical coordinate on a hemispherical head\<close>




section \<open>Offsets outside the head\<close>




section \<open>Zero attachments\<close>

text \<open>
  Claim C4. With no nozzle and no pipe support \<^verbatim>\<open>display_results\<close> of
  \<^verbatim>\<open>NLTrans_V.0sm.py\<close> builds a frame without columns and \<^verbatim>\<open>df['Fx']\<close> raises
  \<^verbatim>\<open>KeyError\<close>: no TOTAL record is produced. The accumulation loop of
  \<^verbatim>\<open>DS_NLTrans_F.py\<close> gives six zeros on the empty list.
\<close>

theorem zero_attachments_KeyError:
  "main_calculate [] [] sh R L = Inl (KeyError ''Fx'')
   \<and> display_results [] (Some []) = Inl (KeyError ''Fx'')
   \<and> display_results [] None = Inl (KeyError ''Fx'')
   \<and> DS_main [] sh R L = Inr (0, 0, 0, 0, 0, 0)"
  by (simp add: main_calculate_def display_results_def df_getitem_def py_bind_def DS_main_def)

section \<open>The apex of a head\<close>



section \<open>Periodicity in the angle\<close>


section \<open>The total does not depend on the input order\<close>













subsection \<open>In floating point the total depends on the order\<close>










section \<open>The shell scenario\<close>

text \<open>
  Claim C8. With \<open>supportHeight = 0\<close>, \<open>R = 1\<close>, \<open>L = 10\<close> and one shell nozzle at
  elevation 5, \<open>theta = 0\<close>, \<open>P = 100\<close>, \<open>Vc = VL = 0\<close>, the position is \<open>(0, 5, 0)\<close>,
  the force is \<open>(0, 0, -100)\<close> and the moment is \<open>(-500, 0, 0)\<close>, in both variants.
\<close>

theorem shell_nozzle_scenario:
  "calculate_position
     \<lparr>location = ''Shell'', offset = 0.0, elevation = 5, theta = 0, aspect_ratio = Some 2.0,
      P = 100, V1 = 0, V2 = 0, Vc = 0, VL = 0\<rparr> 0 1 10
     = Inr (0, 5, 0)
   \<and> transform_nozzle_loads
     \<lparr>location = ''Shell'', offset = 0.0, elevation = 5, theta = 0, aspect_ratio = Some 2.0,
      P = 100, V1 = 0, V2 = 0, Vc = 0, VL = 0\<rparr> 0 1 10
     = Inr \<lparr>Fx = 0, Fy = 0, Fz = - 100, Mx = - 500, My = 0, Mz = 0\<rparr>
   \<and> DS_calculate_position
     \<lparr>location = ''Shell'', offset = 0.0, elevation = 5, theta = 0, aspect_ratio = Some 2.0,
      P = 100, V1 = 0, V2 = 0, Vc = 0, VL = 0\<rparr> 0 1 10
     = Inr (0, 5, 0)
   \<and> DS_transform_loads
     \<lparr>location = ''Shell'', offset = 0.0, elevation = 5, theta = 0, aspect_ratio = Some 2.0,
      P = 100, V1 = 0, V2 = 0, Vc = 0, VL = 0\<rparr> 0 1 10
     = Inr (0, 0, - 100, - 500, 0, 0)"
  by (simp add: calculate_position_def transform_nozzle_loads_def DS_calculate_position_def
      DS_transform_loads_def py_bind_def math_radians_def Let_def location_sublist)

section \<open>The two variants agree on the shell\<close>

text \<open>
  Claim C9. For every attachment on the shell the two files compute the same thing:
  the two \<^verbatim>\<open>calculate_position\<close> return the same \<open>(X, Y, Z)\<close>, which is
  \<open>(offset sin \<theta>, supportHeight + elevation, -offset cos \<theta>)\<close>, and \<^verbatim>\<open>transform_loads\<close>
  returns as a tuple the six loads that \<^verbatim>\<open>transform_nozzle_loads\<close> returns as a
  dictionary.
\<close>

theorem shell_variants_agree:
  assumes "location n = ''Shell''"
  shows "DS_calculate_position n sh R L = calculate_position n sh R L
    \<and> calculate_position n sh R L =
        Inr (offset n * sin (math_radians (theta n)), sh + elevation n,
             - offset n * cos (math_radians (theta n)))
    \<and> (\<exists>g. transform_nozzle_loads n sh R L = Inr g
          \<and> DS_transform_loads n sh R L = Inr (Fx g, Fy g, Fz g, Mx g, My g, Mz g))"
  using assms
  by (simp add: calculate_position_def DS_calculate_position_def transform_nozzle_loads_def
      DS_transform_loads_def Let_def py_bind_def location_sublist)

theorem shell_variants_agree_witness:
  "(let n = \<lparr>location = ''Shell'', offset = 0, elevation = 5, theta = 90, aspect_ratio = Some 2,
              P = 100, V1 = 0, V2 = 0, Vc = 20, VL = 3\<rparr>
    in location n = ''Shell''
     \<and> DS_calculate_position n 0 1 10 = calculate_position n 0 1 10
     \<and> calculate_position n 0 1 10 = Inr (0, 5, 0)
     \<and> (\<exists>g. transform_nozzle_loads n 0 1 10 = Inr g
           \<and> DS_transform_loads n 0 1 10 = Inr (Fx g, Fy g, Fz g, Mx g, My g, Mz g)))"
proof -
  let ?n = "\<lparr>location = ''Shell'', offset = 0, elevation = 5, theta = 90, aspect_ratio = Some 2,
              P = 100, V1 = 0, V2 = 0, Vc = 20, VL = 3\<rparr>"
  have loc: "location ?n = ''Shell''"
    by simp
  show ?thesis
    using shell_variants_agree [OF loc, of 0 1 10]
    by simp
qed

section \<open>The offset bound of the input form keeps the square roots real\<close>

lemma offset_le_R_no_domain_error:
  assumes "0 < R" and "0 \<le> offset n" and "offset n \<le> R"
    and "location n \<in> {''Hemispherical Top Head'', ''Hemispherical Bottom Head'',
                        ''Ellipsoidal Top Head'', ''Ellipsoidal Bottom Head''}"
  shows "calculate_position n sh R L \<noteq> Inl ValueError
    \<and> (aspect_ratio n \<noteq> Some 0 \<longrightarrow> (\<exists>p. calculate_position n sh R L = Inr p))"
proof -
  from assms(2,3) have le: "(offset n)\<^sup>2 \<le> R\<^sup>2"
    by (intro power_mono) simp_all
  then have sq: "\<not> R\<^sup>2 - (offset n)\<^sup>2 < 0"
    by simp
  from le assms(1) have el: "\<not> 1 - (offset n)\<^sup>2 / R\<^sup>2 < 0"
    by (simp add: field_simps)
  show ?thesis
    using assms(1,4) sq el
    by (auto simp: calculate_position_def Let_def py_defs location_sublist
        split: option.splits)
qed

text \<open>
  Claim C10. For a head attachment with \<open>R > 0\<close> and
  \<open>0 \<le> offset \<le> calculate_head_depth(headType, R, 2.0)\<close>, the bound of the input form,
  \<^verbatim>\<open>calculate_position\<close> of \<^verbatim>\<open>NLTrans_V.0sm.py\<close> never raises the \<^verbatim>\<open>ValueError\<close> of
  \<^verbatim>\<open>math.sqrt\<close>, and returns a position unless the aspect ratio is 0. On an ellipsoidal
  head the same holds for every offset up to \<open>R\<close>.
\<close>

theorem ui_offset_bound_no_domain_error:
  assumes "0 < R" and "0 \<le> offset n"
    and "location n \<in> {''Hemispherical Top Head'', ''Hemispherical Bottom Head'',
                        ''Ellipsoidal Top Head'', ''Ellipsoidal Bottom Head''}"
  shows "\<exists>m. max_offset (location n) R = Inr m
    \<and> (offset n \<le> m \<longrightarrow>
          calculate_position n sh R L \<noteq> Inl ValueError
          \<and> (aspect_ratio n \<noteq> Some 0 \<longrightarrow> (\<exists>p. calculate_position n sh R L = Inr p)))
    \<and> (location n \<in> {''Ellipsoidal Top Head'', ''Ellipsoidal Bottom Head''}
          \<and> offset n \<le> R \<longrightarrow>
          calculate_position n sh R L \<noteq> Inl ValueError
          \<and> (aspect_ratio n \<noteq> Some 0 \<longrightarrow> (\<exists>p. calculate_position n sh R L = Inr p)))"
proof -
  note ok = offset_le_R_no_domain_error [OF assms(1,2) _ assms(3), of sh L]
  consider (hemi) "location n \<in> {''Hemispherical Top Head'', ''Hemispherical Bottom Head''}"
    | (ellip) "location n \<in> {''Ellipsoidal Top Head'', ''Ellipsoidal Bottom Head''}"
    using assms(3) by auto
  then show ?thesis
  proof cases
    case hemi
    then have "max_offset (location n) R = Inr R"
      by (auto simp: max_offset_def calculate_head_depth_def location_sublist)
    with ok show ?thesis by blast
  next
    case ellip
    then have m: "max_offset (location n) R = Inr (R / 2)"
      by (auto simp: max_offset_def calculate_head_depth_def truediv_def location_sublist)
    have "offset n \<le> R" if "offset n \<le> R / 2"
      using that assms(1) by simp
    with ok m show ?thesis by blast
  qed
qed

theorem ui_offset_bound_no_domain_error_witness:
  "(let h = \<lparr>location = ''Hemispherical Top Head'', offset = 1, elevation = 0, theta = 0,
              aspect_ratio = Some 2\<rparr>;
        e = \<lparr>location = ''Ellipsoidal Top Head'', offset = 1, elevation = 0, theta = 0,
              aspect_ratio = Some 2\<rparr>
    in (0::real) < 1 \<and> 0 \<le> offset h
     \<and> location h \<in> {''Hemispherical Top Head'', ''Hemispherical Bottom Head'',
                       ''Ellipsoidal Top Head'', ''Ellipsoidal Bottom Head''}
     \<and> max_offset (location h) 1 = Inr 1 \<and> offset h \<le> 1
     \<and> aspect_ratio h \<noteq> Some 0
     \<and> calculate_position h 0 1 10 \<noteq> Inl ValueError
     \<and> (\<exists>p. calculate_position h 0 1 10 = Inr p)
     \<and> 0 \<le> offset e
     \<and> location e \<in> {''Ellipsoidal Top Head'', ''Ellipsoidal Bottom Head''}
     \<and> offset e \<le> 1 \<and> aspect_ratio e \<noteq> Some 0
     \<and> calculate_position e 0 1 10 \<noteq> Inl ValueError
     \<and> (\<exists>p. calculate_position e 0 1 10 = Inr p))"
proof -
  let ?h = "\<lparr>location = ''Hemispherical Top Head'', offset = 1, elevation = 0, theta = 0,
              aspect_ratio = Some 2\<rparr>"
  let ?e = "\<lparr>location = ''Ellipsoidal Top Head'', offset = 1, elevation = 0, theta = 0,
              aspect_ratio = Some 2\<rparr>"
  have m: "max_offset (location ?h) 1 = Inr 1"
    by (simp add: max_offset_def calculate_head_depth_def location_sublist)
  have H: "calculate_position ?h 0 1 10 \<noteq> Inl ValueError
      \<and> (\<exists>p. calculate_position ?h 0 1 10 = Inr p)"
    using ui_offset_bound_no_domain_error [of 1 ?h 0 10] m
    by auto
  have E: "calculate_position ?e 0 1 10 \<noteq> Inl ValueError
      \<and> (\<exists>p. calculate_position ?e 0 1 10 = Inr p)"
    using ui_offset_bound_no_domain_error [of 1 ?e 0 10]
    by auto
  from H E m show ?thesis
    by (simp add: Let_def)
qed

end
